theory Spec2Isabelle
  imports
    Complex_Main
    "HOL-Library.Char_ord"
    "HOL-Library.List_Lexorder"
    "HOL-Library.Product_Lexorder"
begin

section \<open>Strings, column labels and errors\<close>

text \<open>
  A Python \<open>str\<close> is modelled by its UTF-8 encoding, an Isabelle \<open>string\<close>: two strings are
  equal exactly when their encodings are, and the byte-wise lexicographic order of the
  encodings is Python's code point order. ASCII text is written as a literal, other text
  as the list of its bytes.

  \<open>str.lower\<close> is a builtin of Python and not part of the repository: every function that
  calls it takes it as the parameter \<open>lower\<close>, and the theorems hold for every such
  function. \<open>lower_ascii\<close> is \<open>str.lower\<close> on ASCII text, used for concrete runs.
\<close>

fun lower_char :: "char \<Rightarrow> char" where
  "lower_char (Char b0 b1 b2 b3 b4 b5 b6 b7) =
     (if CHR ''A'' \<le> Char b0 b1 b2 b3 b4 b5 b6 b7 \<and> Char b0 b1 b2 b3 b4 b5 b6 b7 \<le> CHR ''Z''
      then Char b0 b1 b2 b3 b4 True b6 b7
      else Char b0 b1 b2 b3 b4 b5 b6 b7)"

definition lower_ascii :: "string \<Rightarrow> string" where
  "lower_ascii s = map lower_char s"

text \<open>
  A column label of a data frame read from a spreadsheet is the content of the header
  cell: a \<open>str\<close>, or another object (a number, a datetime) that has no method \<open>lower\<close>.
\<close>

datatype label = Str string | NonStr nat

section \<open>Cells\<close>

text \<open>
  A cell of the table is missing (None, NaN, NaT), a number, a text or a timestamp.
  Numbers are exact rationals: rounding, overflow and the infinities of binary floating
  point are outside the model, except where the source handles them itself (the result
  of a division, see \<open>fval\<close> below). A timestamp is (year, month, day, nanoseconds
  since midnight); the library's order on tuples is the lexicographic one, which is the
  chronological order.
\<close>

type_synonym timestamp = "nat \<times> nat \<times> nat \<times> nat"

datatype cell = Null | Num rat | Txt string | Stamp timestamp

text \<open>
  The order in which pandas sorts labels: numbers by value and texts by code points; in
  a column that mixes kinds, numbers come before texts and missing values last.
\<close>

fun cell_key :: "cell \<Rightarrow> nat \<times> rat \<times> timestamp \<times> string" where
  "cell_key (Num x) = (0, x, (0, 0, 0, 0), [])"
| "cell_key (Stamp t) = (1, 0, t, [])"
| "cell_key (Txt s) = (2, 0, (0, 0, 0, 0), s)"
| "cell_key Null = (3, 0, (0, 0, 0, 0), [])"

instantiation cell :: linorder
begin

definition less_eq_cell :: "cell \<Rightarrow> cell \<Rightarrow> bool" where
  "less_eq_cell a b = (cell_key a \<le> cell_key b)"

definition less_cell :: "cell \<Rightarrow> cell \<Rightarrow> bool" where
  "less_cell a b = (cell_key a < cell_key b)"

instance
proof
  fix x y z :: cell
  show "(x < y) = (x \<le> y \<and> \<not> y \<le> x)"
    unfolding less_eq_cell_def less_cell_def by (rule less_le_not_le)
  show "x \<le> x"
    unfolding less_eq_cell_def by (rule order_refl)
  show "x \<le> y \<Longrightarrow> y \<le> z \<Longrightarrow> x \<le> z"
    unfolding less_eq_cell_def by (rule order_trans)
  show "x \<le> y \<Longrightarrow> y \<le> x \<Longrightarrow> x = y"
    unfolding less_eq_cell_def by (cases x; cases y) auto
  show "x \<le> y \<or> y \<le> x"
    unfolding less_eq_cell_def by (rule linear)
qed

end

datatype error = AttributeError | KeyError cell | ValueError

section \<open>Column detection (\<open>detect_column\<close>, lines 24 to 33)\<close>

text \<open>First loop: \<open>for c in candidates: if c in df.columns: return c\<close>.\<close>

fun exact_pass :: "label list \<Rightarrow> string list \<Rightarrow> string option" where
  "exact_pass cols [] = None"
| "exact_pass cols (c # cs) = (if Str c \<in> set cols then Some c else exact_pass cols cs)"

text \<open>
  \<open>lowermap = {col.lower(): col for col in df.columns}\<close>: the dictionary is filled in
  column order, a later column replacing an earlier one under the same key;
  \<open>col.lower()\<close> raises AttributeError on a label that is not a \<open>str\<close>.
\<close>

fun lowermap :: "(string \<Rightarrow> string) \<Rightarrow> label list \<Rightarrow> (string \<rightharpoonup> string)
    \<Rightarrow> error + (string \<rightharpoonup> string)" where
  "lowermap lower [] m = Inr m"
| "lowermap lower (Str s # cols) m = lowermap lower cols (m(lower s \<mapsto> s))"
| "lowermap lower (NonStr n # cols) m = Inl AttributeError"

text \<open>Second loop: \<open>for c in candidates: if c.lower() in lowermap: return lowermap[c.lower()]\<close>.\<close>

fun fuzzy_pass :: "(string \<Rightarrow> string) \<Rightarrow> (string \<rightharpoonup> string) \<Rightarrow> string list
    \<Rightarrow> string option" where
  "fuzzy_pass lower m [] = None"
| "fuzzy_pass lower m (c # cs) =
     (case m (lower c) of Some col \<Rightarrow> Some col | None \<Rightarrow> fuzzy_pass lower m cs)"

definition detect_column :: "(string \<Rightarrow> string) \<Rightarrow> label list \<Rightarrow> string list
    \<Rightarrow> error + string option" where
  "detect_column lower cols candidates =
     (case exact_pass cols candidates of
        Some c \<Rightarrow> Inr (Some c)
      | None \<Rightarrow>
          (case lowermap lower cols Map.empty of
             Inl e \<Rightarrow> Inl e
           | Inr m \<Rightarrow> Inr (fuzzy_pass lower m candidates)))"

section \<open>The candidate lists (lines 18 to 21)\<close>

definition COMMON_DATE_COLS :: "string list" where
  "COMMON_DATE_COLS =
     [[CHR 0xE6, CHR 0x97, CHR 0xA5, CHR 0xE6, CHR 0x9C, CHR 0x9F],
      [CHR 0xE5, CHR 0x87, CHR 0xBA, CHR 0xE5, CHR 0xBA, CHR 0x93, CHR 0xE6, CHR 0x97, CHR 0xA5, CHR 0xE6, CHR 0x9C, CHR 0x9F],
      [CHR 0xE5, CHR 0x8D, CHR 0x95, CHR 0xE6, CHR 0x8D, CHR 0xAE, CHR 0xE6, CHR 0x97, CHR 0xA5, CHR 0xE6, CHR 0x9C, CHR 0x9F],
      [CHR 0xE9, CHR 0x94, CHR 0x80, CHR 0xE5, CHR 0x94, CHR 0xAE, CHR 0xE6, CHR 0x97, CHR 0xA5, CHR 0xE6, CHR 0x9C, CHR 0x9F],
      ''date'', ''Date'',
      [CHR 0xE5, CHR 0x87, CHR 0xBA, CHR 0xE5, CHR 0xBA, CHR 0x93, CHR 0xE6, CHR 0x97, CHR 0xB6, CHR 0xE9, CHR 0x97, CHR 0xB4]]"

definition COMMON_CATEGORY_COLS :: "string list" where
  "COMMON_CATEGORY_COLS =
     [[CHR 0xE4, CHR 0xBA, CHR 0xA7, CHR 0xE5, CHR 0x93, CHR 0x81, CHR 0xE7, CHR 0xB1, CHR 0xBB, CHR 0xE5, CHR 0x88, CHR 0xAB],
      [CHR 0xE7, CHR 0xB1, CHR 0xBB, CHR 0xE5, CHR 0x88, CHR 0xAB],
      [CHR 0xE7, CHR 0xB1, CHR 0xBB, CHR 0xE5, CHR 0x88, CHR 0xAB, CHR 0xE5, CHR 0x90, CHR 0x8D, CHR 0xE7, CHR 0xA7, CHR 0xB0],
      [CHR 0xE5, CHR 0x95, CHR 0x86, CHR 0xE5, CHR 0x93, CHR 0x81, CHR 0xE7, CHR 0xB1, CHR 0xBB, CHR 0xE5, CHR 0x88, CHR 0xAB],
      [CHR 0xE4, CHR 0xBA, CHR 0xA7, CHR 0xE5, CHR 0x93, CHR 0x81, CHR 0xE5, CHR 0x88, CHR 0x86, CHR 0xE7, CHR 0xB1, CHR 0xBB],
      [CHR 0xE5, CHR 0x95, CHR 0x86, CHR 0xE5, CHR 0x93, CHR 0x81, CHR 0xE5, CHR 0xA4, CHR 0xA7, CHR 0xE7, CHR 0xB1, CHR 0xBB],
      ''category'', ''Category'',
      [CHR 0xE7, CHR 0xB1, CHR 0xBB, CHR 0xE5, CHR 0x88, CHR 0xAB, CHR 0x49, CHR 0x44]]"

definition COMMON_AMOUNT_COLS :: "string list" where
  "COMMON_AMOUNT_COLS =
     [[CHR 0xE9, CHR 0x87, CHR 0x91, CHR 0xE9, CHR 0xA2, CHR 0x9D],
      [CHR 0xE9, CHR 0x94, CHR 0x80, CHR 0xE5, CHR 0x94, CHR 0xAE, CHR 0xE9, CHR 0xA2, CHR 0x9D],
      [CHR 0xE5, CHR 0xAE, CHR 0x9E, CHR 0xE6, CHR 0x94, CHR 0xB6, CHR 0xE9, CHR 0x87, CHR 0x91, CHR 0xE9, CHR 0xA2, CHR 0x9D],
      [CHR 0xE9, CHR 0x87, CHR 0x91, CHR 0xE9, CHR 0xA2, CHR 0x9D, CHR 0x28, CHR 0xE5, CHR 0x85, CHR 0x83, CHR 0x29],
      [CHR 0xE6, CHR 0x80, CHR 0xBB, CHR 0xE9, CHR 0xA2, CHR 0x9D],
      [CHR 0xE9, CHR 0x87, CHR 0x91, CHR 0xE9, CHR 0xA2, CHR 0x9D, CHR 0xE5, CHR 0x90, CHR 0x88, CHR 0xE8, CHR 0xAE, CHR 0xA1],
      ''amount'', ''Amount'',
      [CHR 0xE9, CHR 0x94, CHR 0x80, CHR 0xE5, CHR 0x94, CHR 0xAE, CHR 0xE9, CHR 0x87, CHR 0x91, CHR 0xE9, CHR 0xA2, CHR 0x9D]]"

definition COMMON_QTY_COLS :: "string list" where
  "COMMON_QTY_COLS =
     [[CHR 0xE6, CHR 0x95, CHR 0xB0, CHR 0xE9, CHR 0x87, CHR 0x8F],
      [CHR 0xE6, CHR 0x95, CHR 0xB0, CHR 0xE9, CHR 0x87, CHR 0x8F, CHR 0x28, CHR 0xE4, CHR 0xBB, CHR 0xB6, CHR 0x29],
      ''qty'', ''Qty'',
      [CHR 0xE6, CHR 0x95, CHR 0xB0, CHR 0xE9, CHR 0x87, CHR 0x8F, CHR 0x28, CHR 0x6B, CHR 0x67, CHR 0x29]]"

text \<open>The label given to a missing category (line 99, line 102) and the name of the
  synthesized category column (lines 99 and 100).\<close>

definition unknown :: string where
  "unknown = [CHR 0xE6, CHR 0x9C, CHR 0xAA, CHR 0xE7, CHR 0x9F, CHR 0xA5]"

definition detected_col :: string where
  "detected_col =
     [CHR 0xE4, CHR 0xBA, CHR 0xA7, CHR 0xE5, CHR 0x93, CHR 0x81, CHR 0xE7, CHR 0xB1, CHR 0xBB, CHR 0xE5, CHR 0x88, CHR 0xAB] @ ''_detected''"

section \<open>The data frame\<close>

text \<open>
  A data frame is its column labels, in order, and its rows; a row gives every label a
  cell. Only the cells under the frame's labels mean anything.
\<close>

type_synonym row = "label \<Rightarrow> cell"

record frame =
  columns :: "label list"
  rows :: "row list"

text \<open>\<open>df[c] = ...\<close> with a value computed from each row: an existing column is
  overwritten, a new one is appended.\<close>

definition assign :: "label \<Rightarrow> (row \<Rightarrow> cell) \<Rightarrow> frame \<Rightarrow> frame" where
  "assign c f df =
     \<lparr>columns = (if c \<in> set (columns df) then columns df else columns df @ [c]),
      rows = map (\<lambda>r. r(c := f r)) (rows df)\<rparr>"

text \<open>\<open>df.dropna(subset=[c])\<close>.\<close>

definition dropna :: "label \<Rightarrow> frame \<Rightarrow> frame" where
  "dropna c df = df\<lparr>rows := filter (\<lambda>r. r c \<noteq> Null) (rows df)\<rparr>"

text \<open>\<open>s.fillna(v)\<close> on one cell.\<close>

definition fillna :: "cell \<Rightarrow> cell \<Rightarrow> cell" where
  "fillna v c = (if c = Null then v else c)"

text \<open>
  \<open>coerce_date\<close> (lines 42 to 44). \<open>pd.to_datetime(..., errors="coerce")\<close> is the
  library's parser, the parameter \<open>to_datetime\<close>: the timestamp it reads from a cell, or
  None where it gives NaT.
\<close>

definition coerce_date :: "(cell \<Rightarrow> timestamp option) \<Rightarrow> frame \<Rightarrow> string \<Rightarrow> frame" where
  "coerce_date to_datetime df col =
     assign (Str col)
       (\<lambda>r. case to_datetime (r (Str col)) of Some t \<Rightarrow> Stamp t | None \<Rightarrow> Null) df"

text \<open>
  Lines 88 and 89: \<open>mask = (df[date_col] >= start) & (df[date_col] <= end)\<close>, then
  \<open>df.loc[mask]\<close>. A comparison with a missing date is False.
\<close>

definition in_range :: "timestamp \<Rightarrow> timestamp \<Rightarrow> cell \<Rightarrow> bool" where
  "in_range start end' c = (case c of Stamp t \<Rightarrow> start \<le> t \<and> t \<le> end' | _ \<Rightarrow> False)"

definition filter_dates :: "timestamp \<Rightarrow> timestamp \<Rightarrow> string \<Rightarrow> frame \<Rightarrow> frame" where
  "filter_dates start end' date_col df =
     df\<lparr>rows := filter (\<lambda>r. in_range start end' (r (Str date_col))) (rows df)\<rparr>"

text \<open>\<open>df.drop_duplicates()\<close>: of rows equal in every column the first is kept.\<close>

definition row_eq :: "label list \<Rightarrow> row \<Rightarrow> row \<Rightarrow> bool" where
  "row_eq cols r s = list_all (\<lambda>c. r c = s c) cols"

fun drop_dups :: "label list \<Rightarrow> row list \<Rightarrow> row list \<Rightarrow> row list" where
  "drop_dups cols seen [] = []"
| "drop_dups cols seen (r # rs) =
     (if list_ex (row_eq cols r) seen then drop_dups cols seen rs
      else r # drop_dups cols (r # seen) rs)"

definition drop_duplicates :: "frame \<Rightarrow> frame" where
  "drop_duplicates df = df\<lparr>rows := drop_dups (columns df) [] (rows df)\<rparr>"

text \<open>
  \<open>pd.to_numeric(..., errors="coerce")\<close>: a number stays, a text is read by the
  library's parser (the parameter \<open>parse\<close>), anything else becomes NaN.
\<close>

definition to_numeric :: "(string \<Rightarrow> rat option) \<Rightarrow> cell \<Rightarrow> rat option" where
  "to_numeric parse c = (case c of Num x \<Rightarrow> Some x | Txt s \<Rightarrow> parse s | _ \<Rightarrow> None)"

definition coerce_numeric :: "(string \<Rightarrow> rat option) \<Rightarrow> cell \<Rightarrow> cell" where
  "coerce_numeric parse c = (case to_numeric parse c of Some x \<Rightarrow> Num x | None \<Rightarrow> Null)"

text \<open>The test \<open>qty_col and qty_col in df.columns\<close> (lines 108, 119, 127, 135): an
  empty string is false.\<close>

definition has_qty :: "string option \<Rightarrow> frame \<Rightarrow> bool" where
  "has_qty qty_col df =
     (case qty_col of None \<Rightarrow> False | Some q \<Rightarrow> q \<noteq> [] \<and> Str q \<in> set (columns df))"

section \<open>What a run prints and writes\<close>

datatype msg =
    Reading
  | RawRows nat
  | NoDateColumn
  | AvailableColumns "label list"
  | Detected string "string option" "string option" "string option"
  | RowsInRange nat
  | DuplicatesRemoved nat
  | NoAmountColumn
  | NoAmountSource
  | MissingAmountRemoved nat
  | SavedTables
  | SavedChart
  | ReportWritten
  | TooFewMonths
  | Finished

text \<open>The command line: \<open>--start\<close> and \<open>--end\<close> as \<open>pd.to_datetime\<close> reads them
  (lines 86 and 87), and \<open>--top-n\<close>, an int.\<close>

record args =
  start :: timestamp
  end' :: timestamp
  top_n :: int

section \<open>Cleaning (lines 82 to 120)\<close>

text \<open>Lines 82 to 95: dates parsed and the rows without one dropped, the date range,
  duplicates.\<close>

definition clean_dates :: "(cell \<Rightarrow> timestamp option) \<Rightarrow> args \<Rightarrow> string \<Rightarrow> frame
    \<Rightarrow> msg list \<times> frame" where
  "clean_dates to_datetime a date_col df0 =
     (let df1 = dropna (Str date_col) (coerce_date to_datetime df0 date_col);
          df2 = filter_dates (start a) (end' a) date_col df1;
          df3 = drop_duplicates df2
      in ([RowsInRange (length (rows df2)),
           DuplicatesRemoved (length (rows df2) - length (rows df3))], df3))"

text \<open>Lines 98 to 102: the category column.\<close>

definition clean_category :: "string option \<Rightarrow> frame \<Rightarrow> string \<times> frame" where
  "clean_category cat_col df =
     (case cat_col of
        None \<Rightarrow> (detected_col, assign (Str detected_col) (\<lambda>r. Txt unknown) df)
      | Some c \<Rightarrow> (c, assign (Str c) (\<lambda>r. fillna (Txt unknown) (r (Str c))) df))"

text \<open>
  Lines 105 to 120: the amount column, with the quantity column standing in for a missing
  one; rows without a numeric amount dropped; quantities made numeric, zero where they
  are not. None is the early return of line 112.
\<close>

definition clean_amounts :: "(string \<Rightarrow> rat option) \<Rightarrow> string option \<Rightarrow> string option
    \<Rightarrow> frame \<Rightarrow> msg list \<times> (string \<times> frame) option" where
  "clean_amounts parse amt_col qty_col df =
     (let chosen =
            (case amt_col of
               Some c \<Rightarrow> ([], Some c)
             | None \<Rightarrow>
                 (if has_qty qty_col df then ([NoAmountColumn], qty_col)
                  else ([NoAmountColumn, NoAmountSource], None)))
      in case snd chosen of
           None \<Rightarrow> (fst chosen, None)
         | Some c \<Rightarrow>
             (let df1 = assign (Str c) (\<lambda>r. coerce_numeric parse (r (Str c))) df;
                  df2 = dropna (Str c) df1;
                  df3 =
                    (case qty_col of
                       None \<Rightarrow> df2
                     | Some q \<Rightarrow>
                         (if has_qty qty_col df2
                          then assign (Str q)
                                 (\<lambda>r. fillna (Num 0) (coerce_numeric parse (r (Str q)))) df2
                          else df2))
              in (fst chosen @ [MissingAmountRemoved (length (rows df1) - length (rows df2))],
                  Some (c, df3))))"

section \<open>Aggregation (lines 123 to 137)\<close>

text \<open>
  \<open>df[date_col].dt.to_period('M').astype(str)\<close>: the year in four digits, a hyphen, the
  month in two digits, and \<open>NaT\<close> for a missing date. A pandas timestamp lies between the
  years 1677 and 2262, so four digits always hold the year.
\<close>

definition digit :: "nat \<Rightarrow> char" where
  "digit n = ''0123456789'' ! (n mod 10)"

definition month_label :: "timestamp \<Rightarrow> string" where
  "month_label t =
     (case t of (y, m, d, ns) \<Rightarrow>
        [digit (y div 1000), digit (y div 100), digit (y div 10), digit y, CHR ''-'',
         digit (m div 10), digit m])"

definition month_of :: "cell \<Rightarrow> cell" where
  "month_of c = (case c of Stamp t \<Rightarrow> Txt (month_label t) | _ \<Rightarrow> Txt ''NaT'')"

text \<open>Line 123: \<open>df["month"] = ...\<close>.\<close>

definition add_month :: "string \<Rightarrow> frame \<Rightarrow> frame" where
  "add_month date_col df = assign (Str ''month'') (\<lambda>r. month_of (r (Str date_col))) df"

text \<open>
  One row of \<open>agg\<close>. The aggregations \<open>'sum'\<close> and \<open>'count'\<close> skip missing values:
  \<open>col_sum\<close> adds the numbers of a column, \<open>col_count\<close> counts its cells that are not
  missing.
\<close>

record agg_row =
  month :: cell
  category :: cell
  sales_amount :: rat
  qty :: rat
  orders :: nat

definition num :: "cell \<Rightarrow> rat" where
  "num c = (case c of Num x \<Rightarrow> x | _ \<Rightarrow> 0)"

definition col_sum :: "label \<Rightarrow> row list \<Rightarrow> rat" where
  "col_sum c rs = sum_list (map (\<lambda>r. num (r c)) rs)"

definition col_count :: "label \<Rightarrow> row list \<Rightarrow> nat" where
  "col_count c rs = length (filter (\<lambda>r. r c \<noteq> Null) rs)"

definition group_key :: "string \<Rightarrow> row \<Rightarrow> cell \<times> cell" where
  "group_key cat_col r = (r (Str ''month''), r (Str cat_col))"

text \<open>
  Lines 133 to 137: \<open>df.groupby(["month", cat_col]).agg(...).reset_index()\<close>. Rows with
  a missing key are left out (\<open>keyed_rows\<close>), the groups come sorted by key, and each
  group gives one row (\<open>agg_of_group\<close>): the sum of the amount column, the sum of the
  quantity column when the test of line 135 holds and the count of the amount column
  otherwise, and the count of the amount column.
\<close>

definition keyed_rows :: "string \<Rightarrow> frame \<Rightarrow> row list" where
  "keyed_rows cat_col df =
     filter (\<lambda>r. r (Str ''month'') \<noteq> Null \<and> r (Str cat_col) \<noteq> Null) (rows df)"

definition group_rows :: "string \<Rightarrow> row list \<Rightarrow> cell \<times> cell \<Rightarrow> row list" where
  "group_rows cat_col rs k = filter (\<lambda>r. group_key cat_col r = k) rs"

definition agg_of_group :: "string \<Rightarrow> string option \<Rightarrow> bool \<Rightarrow> cell \<times> cell \<Rightarrow> row list
    \<Rightarrow> agg_row" where
  "agg_of_group amt_col qty_col with_qty k g =
     \<lparr>month = fst k, category = snd k,
      sales_amount = col_sum (Str amt_col) g,
      qty = (case qty_col of
               None \<Rightarrow> of_nat (col_count (Str amt_col) g)
             | Some q \<Rightarrow>
                 (if with_qty then col_sum (Str q) g
                  else of_nat (col_count (Str amt_col) g))),
      orders = col_count (Str amt_col) g\<rparr>"

definition groupby_agg :: "string \<Rightarrow> string \<Rightarrow> string option \<Rightarrow> frame \<Rightarrow> agg_row list" where
  "groupby_agg cat_col amt_col qty_col df =
     (let rs = keyed_rows cat_col df
      in map (\<lambda>k. agg_of_group amt_col qty_col (has_qty qty_col df) k (group_rows cat_col rs k))
           (sort (remdups (map (group_key cat_col) rs))))"

section \<open>The pivot and the change matrix (lines 140 to 144)\<close>

text \<open>A matrix with labelled rows and columns: \<open>vals\<close> holds one list per row label.\<close>

record 'v matrix =
  index :: "cell list"
  cols :: "cell list"
  vals :: "'v list list"

text \<open>
  \<open>agg.pivot(index='month', columns=cat_col, values='sales_amount')\<close>: the row labels are
  the months and the column labels the categories, each sorted and without repetition; a
  cell without an aggregate row is missing; two aggregate rows with the same month and
  category raise ValueError.
\<close>

definition pivot :: "agg_row list \<Rightarrow> error + rat option matrix" where
  "pivot agg =
     (if \<not> distinct (map (\<lambda>a. (month a, category a)) agg) then Inl ValueError
      else
        (let idx = sort (remdups (map month agg));
             cs = sort (remdups (map category agg))
         in Inr \<lparr>index = idx, cols = cs,
                 vals = map (\<lambda>m. map (\<lambda>c. map_option sales_amount
                                  (find (\<lambda>a. month a = m \<and> category a = c) agg)) cs) idx\<rparr>))"

text \<open>\<open>.fillna(0)\<close> on a matrix.\<close>

definition fillna0 :: "rat option matrix \<Rightarrow> rat matrix" where
  "fillna0 p =
     \<lparr>index = index p, cols = cols p,
      vals = map (map (\<lambda>v. case v of None \<Rightarrow> 0 | Some x \<Rightarrow> x)) (vals p)\<rparr>"

text \<open>\<open>.sort_index()\<close>: the rows in the order of their labels.\<close>

definition sort_index :: "'v matrix \<Rightarrow> 'v matrix" where
  "sort_index p =
     (let zs = sort_key fst (zip (index p) (vals p))
      in \<lparr>index = map fst zs, cols = cols p, vals = map snd zs\<rparr>)"

text \<open>
  The result of a floating point division: a number, an infinity or NaN. Dividing by
  zero gives NaN for a zero numerator and an infinity otherwise.
\<close>

datatype fval = Fin rat | PosInf | NegInf | NaN

definition fdiv :: "rat \<Rightarrow> rat \<Rightarrow> fval" where
  "fdiv a b =
     (if b = 0 then (if a = 0 then NaN else if 0 < a then PosInf else NegInf)
      else Fin (a / b))"

definition fsub :: "fval \<Rightarrow> rat \<Rightarrow> fval" where
  "fsub v x = (case v of Fin a \<Rightarrow> Fin (a - x) | _ \<Rightarrow> v)"

text \<open>
  \<open>pivot.pct_change()\<close>: pandas computes \<open>data / data.shift(1) - 1\<close>, so the first row,
  which has no row before it, is NaN.
\<close>

fun pct_rows :: "rat list \<Rightarrow> rat list list \<Rightarrow> fval list list" where
  "pct_rows prev [] = []"
| "pct_rows prev (r # rs) = map2 (\<lambda>a b. fsub (fdiv a b) 1) r prev # pct_rows r rs"

fun pct_vals :: "rat list list \<Rightarrow> fval list list" where
  "pct_vals [] = []"
| "pct_vals (r # rs) = map (\<lambda>a. NaN) r # pct_rows r rs"

definition pct_change :: "rat matrix \<Rightarrow> fval matrix" where
  "pct_change p = \<lparr>index = index p, cols = cols p, vals = pct_vals (vals p)\<rparr>"

text \<open>\<open>.replace([np.inf, -np.inf], np.nan)\<close>.\<close>

definition replace_inf :: "fval \<Rightarrow> fval" where
  "replace_inf v = (case v of PosInf \<Rightarrow> NaN | NegInf \<Rightarrow> NaN | _ \<Rightarrow> v)"

definition replace_infs :: "fval matrix \<Rightarrow> fval matrix" where
  "replace_infs p = \<lparr>index = index p, cols = cols p, vals = map (map replace_inf) (vals p)\<rparr>"

text \<open>Lines 140 to 144 together.\<close>

definition reshape :: "agg_row list \<Rightarrow> error + rat matrix \<times> fval matrix" where
  "reshape agg =
     (case pivot agg of
        Inl e \<Rightarrow> Inl e
      | Inr p \<Rightarrow>
          (let pv = sort_index (fillna0 p)
           in Inr (pv, replace_infs (pct_change pv))))"

section \<open>The chart (lines 157 to 164)\<close>

text \<open>
  A pandas Series is its list of (label, value) pairs.
  \<open>agg.groupby(cat_col)['sales_amount'].sum()\<close> has one entry per category, in the
  sorted order of the categories.
\<close>

definition total_by_cat :: "agg_row list \<Rightarrow> (cell \<times> rat) list" where
  "total_by_cat agg =
     (let rs = filter (\<lambda>a. category a \<noteq> Null) agg;
          ks = sort (remdups (map category rs))
      in map (\<lambda>k. (k, sum_list (map sales_amount (filter (\<lambda>a. category a = k) rs)))) ks)"

text \<open>
  \<open>.sort_values(ascending=False)\<close>. pandas reverses the values, sorts them ascending and
  reverses the result. The sort is modelled as a stable one, which is what numpy's default
  does on a short array (an insertion sort); numpy does not promise an order among equal
  values, so for them the model is one of the orders the library may give.
\<close>

definition sort_values_desc :: "('a \<times> rat) list \<Rightarrow> ('a \<times> rat) list" where
  "sort_values_desc s = rev (sort_key snd (rev s))"

text \<open>\<open>.head(n)\<close> and \<open>.tail(n)\<close>; a negative \<open>n\<close> makes \<open>head\<close> drop the last
  \<open>-n\<close> entries.\<close>

definition head :: "int \<Rightarrow> 'a list \<Rightarrow> 'a list" where
  "head n xs = (if 0 \<le> n then take (nat n) xs else take (length xs - nat (- n)) xs)"

definition tail :: "nat \<Rightarrow> 'a list \<Rightarrow> 'a list" where
  "tail n xs = drop (length xs - n) xs"

text \<open>
  \<open>pivot[k]\<close> on a data frame selects the column labelled \<open>k\<close>, a Series over the row
  labels, and raises KeyError when no column has that label.
\<close>

fun position :: "'a \<Rightarrow> 'a list \<Rightarrow> nat option" where
  "position x [] = None"
| "position x (y # ys) = (if x = y then Some 0 else map_option Suc (position x ys))"

definition getitem :: "'v matrix \<Rightarrow> cell \<Rightarrow> error + (cell \<times> 'v) list" where
  "getitem p k =
     (case position k (cols p) of
        None \<Rightarrow> Inl (KeyError k)
      | Some j \<Rightarrow> Inr (zip (index p) (map (\<lambda>r. r ! j) (vals p))))"

text \<open>The figure: the number in its title and one line, a labelled Series over the
  months, per call of \<open>plt.plot\<close>.\<close>

record chart =
  shown :: nat
  series :: "(cell \<times> (cell \<times> rat) list) list"

definition top_cats :: "int \<Rightarrow> agg_row list \<Rightarrow> cell list" where
  "top_cats n agg = map fst (head n (sort_values_desc (total_by_cat agg)))"

definition plot_trends :: "int \<Rightarrow> agg_row list \<Rightarrow> rat matrix \<Rightarrow> chart" where
  "plot_trends n agg pv =
     \<lparr>shown = length (top_cats n agg),
      series = concat (map (\<lambda>c. case getitem pv c of Inr s \<Rightarrow> [(c, s)] | Inl e \<Rightarrow> [])
                        (top_cats n agg))\<rparr>"

section \<open>The report (lines 177 to 207)\<close>

text \<open>
  The report as data: the date range, the months listed, and the entries of the two
  lists, each a label, the change and the relative change. The rendering of an entry as
  text (\<open>:.2f\<close>, \<open>:.2%\<close>) is not modelled.
\<close>

record report =
  period :: "timestamp \<times> timestamp"
  sample_months :: "cell list"
  gains :: "(cell \<times> rat \<times> fval) list"
  losses :: "(cell \<times> rat \<times> fval) list"

text \<open>\<open>s.get(k, default)\<close> on a Series.\<close>

definition get :: "('k \<times> 'v) list \<Rightarrow> 'k \<Rightarrow> 'v \<Rightarrow> 'v" where
  "get s k d = (case map_of s k of Some v \<Rightarrow> v | None \<Rightarrow> d)"

text \<open>
  Lines 177 to 200. \<open>pivot[last]\<close> and \<open>pivot[first]\<close> are column selections with a
  month label as the key (line 181 evaluates \<open>pivot[last]\<close> first). \<open>change_pct\<close> is
  read through \<open>get\<close> only, so its sorting is left out. The result is the error raised,
  or the report written, or None when there are fewer than two months.
\<close>

definition write_report :: "args \<Rightarrow> rat matrix \<Rightarrow> error + report option" where
  "write_report a pv =
     (case index pv of
        m0 # m1 # ms \<Rightarrow>
          (case getitem pv (last (m1 # ms)) of
             Inl e \<Rightarrow> Inl e
           | Inr sl \<Rightarrow>
               (case getitem pv m0 of
                  Inl e \<Rightarrow> Inl e
                | Inr sf \<Rightarrow>
                    (let diff = map2 (\<lambda>(k, x) (k', y). (k, x - y)) sl sf;
                         change = sort_values_desc diff;
                         change_pct =
                           map2 (\<lambda>(k, d) (k', y). (k, if y = 0 then NaN else fdiv d y)) diff sf;
                         entry = (\<lambda>(c, v). (c, v, get change_pct c NaN))
                     in Inr (Some \<lparr>period = (start a, end' a),
                                   sample_months = index pv,
                                   gains = map entry (head 10 change),
                                   losses = map entry (tail 10 change)\<rparr>))))
      | _ \<Rightarrow> Inr None)"

section \<open>The run (\<open>main\<close>, lines 47 to 209)\<close>

text \<open>
  What a run leaves behind: the messages printed, the files written (None for a file
  that was not written) and the exception that ended the run, if one did. Reading the
  spreadsheet and creating the output directory are outside the model: the run starts
  from the loaded frame.
\<close>

record outcome =
  printed :: "msg list"
  agg_csv :: "agg_row list option"
  pivot_csv :: "rat matrix option"
  pct_csv :: "fval matrix option"
  trends_png :: "chart option"
  report_md :: "report option"
  raised :: "error option"

definition nothing :: "msg list \<Rightarrow> outcome" where
  "nothing ms =
     \<lparr>printed = ms, agg_csv = None, pivot_csv = None, pct_csv = None, trends_png = None,
      report_md = None, raised = None\<rparr>"

text \<open>Lines 70 to 73.\<close>

definition detect_roles :: "(string \<Rightarrow> string) \<Rightarrow> frame
    \<Rightarrow> error + string option \<times> string option \<times> string option \<times> string option" where
  "detect_roles lower df =
     (case detect_column lower (columns df) COMMON_DATE_COLS of
        Inl e \<Rightarrow> Inl e
      | Inr date_col \<Rightarrow>
     (case detect_column lower (columns df) COMMON_CATEGORY_COLS of
        Inl e \<Rightarrow> Inl e
      | Inr cat_col \<Rightarrow>
     (case detect_column lower (columns df) COMMON_AMOUNT_COLS of
        Inl e \<Rightarrow> Inl e
      | Inr amt_col \<Rightarrow>
     (case detect_column lower (columns df) COMMON_QTY_COLS of
        Inl e \<Rightarrow> Inl e
      | Inr qty_col \<Rightarrow> Inr (date_col, cat_col, amt_col, qty_col)))))"

text \<open>Lines 123 to 209: aggregation, the three tables, the chart, the report.\<close>

definition analyse :: "args \<Rightarrow> string \<Rightarrow> string \<Rightarrow> string \<Rightarrow> string option \<Rightarrow> frame \<Rightarrow> outcome" where
  "analyse a date_col cat_col amt_col qty_col df =
     (let agg = groupby_agg cat_col amt_col qty_col (add_month date_col df)
      in case reshape agg of
           Inl e \<Rightarrow> (nothing [])\<lparr>raised := Some e\<rparr>
         | Inr (pv, pct) \<Rightarrow>
             (let saved = (nothing [SavedTables, SavedChart])
                    \<lparr>agg_csv := Some agg, pivot_csv := Some pv, pct_csv := Some pct,
                     trends_png := Some (plot_trends (top_n a) agg pv)\<rparr>
              in case write_report a pv of
                   Inl e \<Rightarrow> saved\<lparr>raised := Some e\<rparr>
                 | Inr None \<Rightarrow> saved\<lparr>printed := printed saved @ [TooFewMonths, Finished]\<rparr>
                 | Inr (Some rep) \<Rightarrow>
                     saved\<lparr>printed := printed saved @ [ReportWritten, Finished],
                           report_md := Some rep\<rparr>))"

definition main :: "(string \<Rightarrow> string) \<Rightarrow> (cell \<Rightarrow> timestamp option) \<Rightarrow> (string \<Rightarrow> rat option)
    \<Rightarrow> args \<Rightarrow> frame \<Rightarrow> outcome" where
  "main lower to_datetime parse a df =
     (let p0 = [Reading, RawRows (length (rows df))]
      in case detect_roles lower df of
           Inl e \<Rightarrow> (nothing p0)\<lparr>raised := Some e\<rparr>
         | Inr (date_col, cat_col, amt_col, qty_col) \<Rightarrow>
             (case date_col of
                None \<Rightarrow> nothing (p0 @ [NoDateColumn, AvailableColumns (columns df)])
              | Some d \<Rightarrow>
                  (let p1 = p0 @ [Detected d cat_col amt_col qty_col];
                       (p2, df1) = clean_dates to_datetime a d df;
                       (c, df2) = clean_category cat_col df1;
                       (p3, r) = clean_amounts parse amt_col qty_col df2
                   in case r of
                        None \<Rightarrow> nothing (p1 @ p2 @ p3)
                      | Some (am, df3) \<Rightarrow>
                          (let out = analyse a d c am qty_col df3
                           in out\<lparr>printed := p1 @ p2 @ p3 @ printed out\<rparr>))))"

text \<open>A row written as the list of its cells, for concrete tables.\<close>

definition mk_row :: "(string \<times> cell) list \<Rightarrow> row" where
  "mk_row kvs = (\<lambda>c. case c of Str s \<Rightarrow> (case map_of kvs s of Some v \<Rightarrow> v | None \<Rightarrow> Null)
                       | NonStr n \<Rightarrow> Null)"

text \<open>
  Parameters for concrete runs: a date parser that accepts the cells that already hold a
  timestamp (as a spreadsheet's date cells do), and a number parser that reads no text.
\<close>

definition stamps_only :: "cell \<Rightarrow> timestamp option" where
  "stamps_only c = (case c of Stamp t \<Rightarrow> Some t | _ \<Rightarrow> None)"

definition no_text :: "string \<Rightarrow> rat option" where
  "no_text s = None"

text \<open>The default command line: 2025-10-01 to 2026-01-31, ten categories.\<close>

definition default_args :: args where
  "default_args = \<lparr>start = (2025, 10, 1, 0), end' = (2026, 1, 31, 0), top_n = 10\<rparr>"

text \<open>
  Scenario A of the specification: the columns for date, category and amount under
  their first candidate names, two rows in October 2025 (100 and 200) and one in November
  2025 (50), all of category \<open>A\<close>.
\<close>

definition scenario_A :: frame where
  "scenario_A =
     \<lparr>columns = [Str (COMMON_DATE_COLS ! 0), Str (COMMON_CATEGORY_COLS ! 0),
                 Str (COMMON_AMOUNT_COLS ! 0)],
      rows =
        [mk_row [(COMMON_DATE_COLS ! 0, Stamp (2025, 10, 5, 0)),
                 (COMMON_CATEGORY_COLS ! 0, Txt ''A''), (COMMON_AMOUNT_COLS ! 0, Num 100)],
         mk_row [(COMMON_DATE_COLS ! 0, Stamp (2025, 10, 20, 0)),
                 (COMMON_CATEGORY_COLS ! 0, Txt ''A''), (COMMON_AMOUNT_COLS ! 0, Num 200)],
         mk_row [(COMMON_DATE_COLS ! 0, Stamp (2025, 11, 3, 0)),
                 (COMMON_CATEGORY_COLS ! 0, Txt ''A''), (COMMON_AMOUNT_COLS ! 0, Num 50)]]\<rparr>"

text \<open>
  A cleaned table for concrete runs: date, category, amount and quantity columns, two
  rows of category \<open>A\<close> in October 2025, one of \<open>A\<close> and one of \<open>B\<close> in November 2025.
\<close>

definition sample_clean :: frame where
  "sample_clean =
     \<lparr>columns = [Str ''date'', Str ''category'', Str ''amount'', Str ''qty''],
      rows =
        [mk_row [(''date'', Stamp (2025, 10, 5, 0)), (''category'', Txt ''A''),
                 (''amount'', Num 100), (''qty'', Num 1)],
         mk_row [(''date'', Stamp (2025, 10, 20, 0)), (''category'', Txt ''A''),
                 (''amount'', Num 200), (''qty'', Num 2)],
         mk_row [(''date'', Stamp (2025, 11, 3, 0)), (''category'', Txt ''A''),
                 (''amount'', Num 50), (''qty'', Num 5)],
         mk_row [(''date'', Stamp (2025, 11, 4, 0)), (''category'', Txt ''B''),
                 (''amount'', Num 70), (''qty'', Num 7)]]\<rparr>"


text \<open>
  A table for the date window with the default command line: rows dated at the start
  of the window, at its end, the day before it and one nanosecond after its end.
\<close>

definition window_table :: frame where
  "window_table =
     \<lparr>columns = [Str ''date'', Str ''category'', Str ''amount''],
      rows =
        [mk_row [(''date'', Stamp (2025, 10, 1, 0)), (''category'', Txt ''A''),
                 (''amount'', Num 1)],
         mk_row [(''date'', Stamp (2026, 1, 31, 0)), (''category'', Txt ''A''),
                 (''amount'', Num 2)],
         mk_row [(''date'', Stamp (2025, 9, 30, 0)), (''category'', Txt ''A''),
                 (''amount'', Num 4)],
         mk_row [(''date'', Stamp (2026, 1, 31, 1)), (''category'', Txt ''A''),
                 (''amount'', Num 8)]]\<rparr>"


text \<open>
  A table without an amount column, whose quantity column holds a number, a text that is
  no number and a missing value.
\<close>

definition qty_only_table :: frame where
  "qty_only_table =
     \<lparr>columns = [Str ''date'', Str ''category'', Str ''qty''],
      rows =
        [mk_row [(''date'', Stamp (2025, 10, 5, 0)), (''category'', Txt ''A''),
                 (''qty'', Num 3)],
         mk_row [(''date'', Stamp (2025, 10, 6, 0)), (''category'', Txt ''A''),
                 (''qty'', Txt ''n/a'')],
         mk_row [(''date'', Stamp (2025, 10, 7, 0)), (''category'', Txt ''B'')]]\<rparr>"


text \<open>
  A cleaned table of Scenario D of the specification: every row in October 2025.
\<close>

definition one_month_table :: frame where
  "one_month_table =
     \<lparr>columns = [Str ''date'', Str ''category'', Str ''amount''],
      rows =
        [mk_row [(''date'', Stamp (2025, 10, 5, 0)), (''category'', Txt ''A''),
                 (''amount'', Num 100)],
         mk_row [(''date'', Stamp (2025, 10, 20, 0)), (''category'', Txt ''B''),
                 (''amount'', Num 200)]]\<rparr>"

section \<open>Notions used in the statements\<close>

text \<open>The calendar month of a timestamp, and the timestamps pandas can hold with a
  month that exists (the years 1677 to 2262).\<close>

definition year_month :: "timestamp \<Rightarrow> nat \<times> nat" where
  "year_month t = (case t of (y, m, d, ns) \<Rightarrow> (y, m))"

definition in_pandas_range :: "timestamp \<Rightarrow> bool" where
  "in_pandas_range t =
     (case t of (y, m, d, ns) \<Rightarrow> 1677 \<le> y \<and> y \<le> 2262 \<and> 1 \<le> m \<and> m \<le> 12)"


text \<open>
  A row of the raw table is in the window when its date parses to a timestamp from
  \<open>start\<close> to \<open>end\<close>, both included, and outside it when its date parses to a timestamp
  before \<open>start\<close> or after \<open>end\<close>.
\<close>

definition in_window :: "(cell \<Rightarrow> timestamp option) \<Rightarrow> args \<Rightarrow> string \<Rightarrow> row \<Rightarrow> bool" where
  "in_window to_datetime a d r =
     (case to_datetime (r (Str d)) of Some t \<Rightarrow> start a \<le> t \<and> t \<le> end' a | None \<Rightarrow> False)"

definition outside :: "(cell \<Rightarrow> timestamp option) \<Rightarrow> args \<Rightarrow> string \<Rightarrow> row \<Rightarrow> bool" where
  "outside to_datetime a d r =
     (case to_datetime (r (Str d)) of Some t \<Rightarrow> t < start a \<or> end' a < t | None \<Rightarrow> False)"




section \<open>Properties of column detection\<close>

lemma exact_pass_find:
  "exact_pass hdrs cands = find (\<lambda>c. Str c \<in> set hdrs) cands"
  by (induction cands) auto

lemma find_app:
  "find P (xs @ ys) = (case find P xs of None \<Rightarrow> find P ys | Some x \<Rightarrow> Some x)"
  by (induction xs) auto

lemma lowermap_strs:
  "lowermap lower (map Str hs) m =
     Inr (\<lambda>k. case find (\<lambda>h. lower h = k) (rev hs) of Some h \<Rightarrow> Some h | None \<Rightarrow> m k)"
proof (induction hs arbitrary: m)
  case Nil
  show ?case by simp
next
  case (Cons h hs)
  show ?case
    by (simp add: Cons.IH find_app fun_eq_iff split: option.splits)
qed

lemma find_None_image:
  "(find (\<lambda>h. lower h = k) (rev hs) = None) = (k \<notin> lower ` set hs)"
  by (auto simp: find_None_iff)

lemma fuzzy_pass_find:
  "fuzzy_pass lower (\<lambda>k. find (\<lambda>h. lower h = k) (rev hs)) cands =
     (case find (\<lambda>c. lower c \<in> lower ` set hs) cands of
        Some c \<Rightarrow> find (\<lambda>h. lower h = lower c) (rev hs)
      | None \<Rightarrow> None)"
proof (induction cands)
  case Nil
  show ?case by simp
next
  case (Cons c cs)
  show ?case
  proof (cases "find (\<lambda>h. lower h = lower c) (rev hs)")
    case None
    then have "lower c \<notin> lower ` set hs" by (simp add: find_None_image)
    with None Cons show ?thesis by simp
  next
    case (Some h)
    then have "lower c \<in> lower ` set hs"
      using find_None_image [of lower "lower c" hs] by auto
    with Some show ?thesis by simp
  qed
qed

lemma detect_column_strs:
  "detect_column lower (map Str hs) cands =
     Inr (case find (\<lambda>c. c \<in> set hs) cands of
            Some c \<Rightarrow> Some c
          | None \<Rightarrow>
              (case find (\<lambda>c. lower c \<in> lower ` set hs) cands of
                 Some c \<Rightarrow> find (\<lambda>h. lower h = lower c) (rev hs)
               | None \<Rightarrow> None))"
proof -
  have m: "lowermap lower (map Str hs) Map.empty =
      Inr (\<lambda>k. find (\<lambda>h. lower h = k) (rev hs))"
    by (simp add: lowermap_strs fun_eq_iff split: option.splits)
  have e: "exact_pass (map Str hs) cands = find (\<lambda>c. c \<in> set hs) cands"
    by (simp add: exact_pass_find image_iff)
  show ?thesis
    by (simp add: detect_column_def m e fuzzy_pass_find split: option.splits)
qed

lemma find_rev_last:
  assumes "find P (rev hs) = Some h"
  shows "\<exists>pre post. hs = pre @ h # post \<and> P h \<and> (\<forall>x\<in>set post. \<not> P x)"
proof -
  from assms obtain i where i: "i < length (rev hs)" "P (rev hs ! i)" "h = rev hs ! i"
    "\<forall>j<i. \<not> P (rev hs ! j)"
    by (auto simp: find_Some_iff)
  let ?n = "length hs - Suc i"
  have n: "?n < length hs" using i(1) by simp
  have h: "h = hs ! ?n" using i(1,3) by (simp add: rev_nth)
  have split: "hs = take ?n hs @ h # drop (Suc ?n) hs"
    using n h by (simp add: id_take_nth_drop)
  have "\<not> P x" if "x \<in> set (drop (Suc ?n) hs)" for x
  proof -
    from that obtain k where k: "k < length hs - Suc ?n" "x = hs ! (Suc ?n + k)"
      by (auto simp: in_set_conv_nth)
    let ?j = "i - Suc k"
    have j: "?j < i" using k(1) i(1) by simp
    have "length hs - Suc ?j = Suc ?n + k" using k(1) i(1) by simp
    then have "rev hs ! ?j = x" using k(2) i(1) j by (simp add: rev_nth)
    then show ?thesis using i(4) j by auto
  qed
  with split i(2,3) show ?thesis by blast
qed

text \<open>
  C2, as the code has it. When every header is a \<open>str\<close>, detection returns the first
  candidate, in candidate order, that is a header; when no candidate is a header, it takes
  the first candidate whose lowercase is the lowercase of some header and returns the
  header stored under that key (the header, not the candidate); when no candidate
  matches in either way it returns None, and it does not raise.
\<close>

theorem detect_column_two_pass:
  "detect_column lower (map Str hs) cands =
     Inr (case find (\<lambda>c. c \<in> set hs) cands of
            Some c \<Rightarrow> Some c
          | None \<Rightarrow>
              (case find (\<lambda>c. lower c \<in> lower ` set hs) cands of
                 Some c \<Rightarrow> find (\<lambda>h. lower h = lower c) (rev hs)
               | None \<Rightarrow> None))"
  by (rule detect_column_strs)

text \<open>
  C2 as the spec words it fails: with the single header \<open>DATE\<close> and the single candidate
  \<open>date\<close> no candidate matches exactly, \<open>date\<close> matches case-insensitively, and the value
  returned is the header \<open>DATE\<close>, which is not the candidate.
\<close>

theorem detect_column_returns_header_not_candidate:
  "detect_column lower_ascii [Str ''DATE''] [''date''] = Inr (Some ''DATE'')
   \<and> detect_column lower_ascii [Str ''DATE''] [''date''] \<noteq> Inr (Some ''date'')"
  by (simp add: detect_column_def lower_ascii_def)

text \<open>
  C9. In the case-insensitive pass (no candidate is a header, \<open>c\<close> is the first candidate
  whose lowercase is the lowercase of a header) the value returned is a header of the
  table in its original spelling, its lowercase is that of \<open>c\<close>, and no header after it
  in column order has that lowercase: of several headers with the same lowercase the
  last one is returned.
\<close>

theorem detect_column_fuzzy_last_header:
  assumes "find (\<lambda>c. c \<in> set hs) cands = None"
    and "find (\<lambda>c. lower c \<in> lower ` set hs) cands = Some c"
  shows "\<exists>h pre post. detect_column lower (map Str hs) cands = Inr (Some h)
           \<and> hs = pre @ h # post \<and> lower h = lower c
           \<and> (\<forall>x\<in>set post. lower x \<noteq> lower c)"
proof -
  from assms(2) have "lower c \<in> lower ` set hs"
    by (auto simp: find_Some_iff)
  then obtain h where h: "find (\<lambda>h. lower h = lower c) (rev hs) = Some h"
    using find_None_image [of lower "lower c" hs] by auto
  from find_rev_last [OF h] obtain pre post where
    "hs = pre @ h # post" "lower h = lower c" "\<forall>x\<in>set post. lower x \<noteq> lower c"
    by blast
  moreover have "detect_column lower (map Str hs) cands = Inr (Some h)"
    by (simp add: detect_column_strs assms h)
  ultimately show ?thesis by blast
qed

theorem detect_column_fuzzy_last_header_witness:
  "\<exists>h pre post.
     detect_column lower_ascii (map Str [''Date'', ''x'', ''DATE'', ''y'']) [''date'', ''day'']
       = Inr (Some h)
     \<and> [''Date'', ''x'', ''DATE'', ''y''] = pre @ h # post
     \<and> lower_ascii h = lower_ascii ''date''
     \<and> (\<forall>x\<in>set post. lower_ascii x \<noteq> lower_ascii ''date'')"
  using detect_column_fuzzy_last_header
    [of "[''Date'', ''x'', ''DATE'', ''y'']" "[''date'', ''day'']" lower_ascii "''date''"]
  by (simp add: lower_ascii_def)
section \<open>The change matrix: lemmas\<close>








section \<open>Aggregation: lemmas\<close>





lemma groupby_agg_keys:
  "map (\<lambda>a. (month a, category a)) (groupby_agg c a q df) =
     sort (remdups (map (group_key c) (keyed_rows c df)))"
  by (simp add: groupby_agg_def Let_def comp_def agg_of_group_def)


lemma groupby_agg_sorted:
  "sorted (map (\<lambda>a. (month a, category a)) (groupby_agg c a q df))"
  by (simp add: groupby_agg_keys)


lemma agg_of_group_key [simp]:
  "month (agg_of_group a q h k g) = fst k" "category (agg_of_group a q h k g) = snd k"
  by (simp_all add: agg_of_group_def)









section \<open>The pivot: lemmas\<close>






section \<open>Month labels sort chronologically\<close>


lemma four_digits:
  fixes y :: nat
  assumes "y < 10000"
  shows "1000 * (y div 1000 mod 10) + 100 * (y div 100 mod 10) + 10 * (y div 10 mod 10) + y mod 10 = y"
proof -
  have a: "y div 1000 mod 10 = y div 1000" using assms by simp
  have "y div 100 div 10 = y div 1000" by (simp add: div_mult2_eq [symmetric])
  then have b: "y div 100 = 10 * (y div 1000) + y div 100 mod 10"
    using mult_div_mod_eq [of 10 "y div 100"] by simp
  have "y div 10 div 10 = y div 100" by (simp add: div_mult2_eq [symmetric])
  then have c: "y div 10 = 10 * (y div 100) + y div 10 mod 10"
    using mult_div_mod_eq [of 10 "y div 10"] by simp
  have d: "y = 10 * (y div 10) + y mod 10" by simp
  show ?thesis using a b c d by linarith
qed

lemma two_digits: "(m::nat) mod 100 = 10 * (m div 10 mod 10) + m mod 10"
  using mod_mult2_eq [of m 10 10] by simp

lemma lex2:
  fixes a1 a0 b1 b0 :: nat
  assumes "a0 < 10" "b0 < 10"
  shows "(a1 < b1 \<or> a1 = b1 \<and> a0 < b0) = (10 * a1 + a0 < 10 * b1 + b0)"
  using assms by auto

lemma two_digits_less:
  fixes m n :: nat
  shows "(m div 10 mod 10 < n div 10 mod 10 \<or> m div 10 mod 10 = n div 10 mod 10 \<and> m mod 10 < n mod 10)
     = (m mod 100 < n mod 100)"
  by (simp only: two_digits [of m] two_digits [of n]) (rule lex2; simp)

lemma lex4:
  fixes a3 a2 a1 a0 b3 b2 b1 b0 :: nat
  assumes "a2 < 10" "a1 < 10" "a0 < 10" "b2 < 10" "b1 < 10" "b0 < 10"
  shows "(a3 < b3 \<or> a3 = b3 \<and> (a2 < b2 \<or> a2 = b2 \<and> (a1 < b1 \<or> a1 = b1 \<and> (a0 < b0 \<or> a0 = b0 \<and> P)))) =
     (1000 * a3 + 100 * a2 + 10 * a1 + a0 < 1000 * b3 + 100 * b2 + 10 * b1 + b0
      \<or> 1000 * a3 + 100 * a2 + 10 * a1 + a0 = 1000 * b3 + 100 * b2 + 10 * b1 + b0 \<and> P)"
  using assms by (cases P) auto

lemma digit_table: "\<forall>k\<in>set [0..<10]. of_char (digit k) = (48 + k :: nat)"
  by (simp add: upt_rec digit_def)

lemma of_char_digit: "of_char (digit n) = (48 + n mod 10 :: nat)"
proof -
  have "n mod 10 \<in> set [0..<10]" by simp
  with digit_table have "of_char (digit (n mod 10)) = (48 + n mod 10 :: nat)" by blast
  then show ?thesis by (simp add: digit_def)
qed

lemma digit_less: "(digit a < digit b) = (a mod 10 < b mod 10)"
  by (simp only: less_char_def of_char_digit nat_add_left_cancel_less)

lemma digit_eq: "(digit a = digit b) = (a mod 10 = b mod 10)"
proof
  assume "digit a = digit b"
  then have "(of_char (digit a) :: nat) = of_char (digit b)" by simp
  then show "a mod 10 = b mod 10" by (simp only: of_char_digit add_left_cancel)
next
  assume "a mod 10 = b mod 10"
  then show "digit a = digit b" by (simp add: digit_def)
qed

lemma month_label_digits:
  "(month_label (y, m, d, ns) < month_label (z, n, e, ms)) =
      (y div 1000 mod 10 < z div 1000 mod 10 \<or> y div 1000 mod 10 = z div 1000 mod 10 \<and>
       (y div 100 mod 10 < z div 100 mod 10 \<or> y div 100 mod 10 = z div 100 mod 10 \<and>
        (y div 10 mod 10 < z div 10 mod 10 \<or> y div 10 mod 10 = z div 10 mod 10 \<and>
         (y mod 10 < z mod 10 \<or> y mod 10 = z mod 10 \<and> m mod 100 < n mod 100))))"
  by (simp add: month_label_def digit_less digit_eq two_digits_less)


lemma month_label_less:
  assumes "in_pandas_range t" and "in_pandas_range u"
  shows "(month_label t < month_label u) = (year_month t < year_month u)"
proof -
  obtain y m d ns where t: "t = (y, m, d, ns)" by (cases t) auto
  obtain z n e ms where u: "u = (z, n, e, ms)" by (cases u) auto
  have y: "y < 10000" and z: "z < 10000" and m: "m mod 100 = m" and n: "n mod 100 = n"
    using assms by (auto simp: t u in_pandas_range_def)
  have "(month_label t < month_label u) =
      (1000 * (y div 1000 mod 10) + 100 * (y div 100 mod 10) + 10 * (y div 10 mod 10) + y mod 10
         < 1000 * (z div 1000 mod 10) + 100 * (z div 100 mod 10) + 10 * (z div 10 mod 10) + z mod 10
       \<or> 1000 * (y div 1000 mod 10) + 100 * (y div 100 mod 10) + 10 * (y div 10 mod 10) + y mod 10
         = 1000 * (z div 1000 mod 10) + 100 * (z div 100 mod 10) + 10 * (z div 10 mod 10) + z mod 10
       \<and> m mod 100 < n mod 100)"
    unfolding t u month_label_digits by (rule lex4) simp_all
  also have "\<dots> = (y < z \<or> y = z \<and> m < n)"
    by (simp only: four_digits [OF y] four_digits [OF z] m n)
  also have "\<dots> = (year_month t < year_month u)"
    by (auto simp: year_month_def t u)
  finally show ?thesis .
qed

lemma month_label_le:
  assumes "in_pandas_range t" and "in_pandas_range u"
  shows "(month_label t \<le> month_label u) = (year_month t \<le> year_month u)"
  using month_label_less [OF assms(2,1)] by (simp add: not_less [symmetric])



section \<open>The cells of the pivot\<close>






text \<open>The aggregate and the matrices of the sample table, by evaluation.\<close>

lemma sample_clean_agg:
  "groupby_agg ''category'' ''amount'' (Some ''qty'') (add_month ''date'' sample_clean) =
       [\<lparr>month = Txt ''2025-10'', category = Txt ''A'', sales_amount = 300, qty = 3, orders = 2\<rparr>,
        \<lparr>month = Txt ''2025-11'', category = Txt ''A'', sales_amount = 50, qty = 5, orders = 1\<rparr>,
        \<lparr>month = Txt ''2025-11'', category = Txt ''B'', sales_amount = 70, qty = 7, orders = 1\<rparr>]"
  by (simp add: groupby_agg_def keyed_rows_def group_rows_def group_key_def agg_of_group_def
      add_month_def assign_def sample_clean_def mk_row_def month_of_def month_label_def digit_def
      has_qty_def col_sum_def col_count_def num_def less_eq_cell_def less_cell_def)

lemma sample_clean_reshape:
  "reshape (groupby_agg ''category'' ''amount'' (Some ''qty'') (add_month ''date'' sample_clean)) =
     Inr (\<lparr>index = [Txt ''2025-10'', Txt ''2025-11''], cols = [Txt ''A'', Txt ''B''],
            vals = [[300, 0], [50, 70]]\<rparr>,
          \<lparr>index = [Txt ''2025-10'', Txt ''2025-11''], cols = [Txt ''A'', Txt ''B''],
            vals = [[NaN, NaN], [Fin (- 5 / 6), NaN]]\<rparr>)"
  unfolding sample_clean_agg
  by (simp add: reshape_def pivot_def fillna0_def sort_index_def pct_change_def
      replace_infs_def replace_inf_def fsub_def fdiv_def less_eq_cell_def less_cell_def)

section \<open>Aggregation (C3)\<close>







section \<open>The change matrix (C1)\<close>






section \<open>The pivot matrix (C4)\<close>



section \<open>The date window (C7)\<close>


lemma rows_after_date_filter:
  "rows (filter_dates s e d (dropna (Str d) (coerce_date to_dt df d))) =
     map (\<lambda>r. r(Str d := case to_dt (r (Str d)) of Some t \<Rightarrow> Stamp t | None \<Rightarrow> Null))
       (filter (\<lambda>r. case to_dt (r (Str d)) of Some t \<Rightarrow> s \<le> t \<and> t \<le> e | None \<Rightarrow> False)
          (rows df))"
proof -
  have "(\<lambda>r. (case to_dt (r (Str d)) of Some t \<Rightarrow> Stamp t | None \<Rightarrow> Null) \<noteq> Null
          \<and> in_range s e (case to_dt (r (Str d)) of Some t \<Rightarrow> Stamp t | None \<Rightarrow> Null)) =
        (\<lambda>r. case to_dt (r (Str d)) of Some t \<Rightarrow> s \<le> t \<and> t \<le> e | None \<Rightarrow> False)"
    by (auto simp: fun_eq_iff in_range_def split: option.splits)
  then show ?thesis
    by (simp add: filter_dates_def dropna_def coerce_date_def assign_def filter_map comp_def)
qed

lemma columns_after_date_filter:
  "columns (filter_dates s e d (dropna (Str d) (coerce_date to_dt df d))) =
     columns (coerce_date to_dt df d)"
  by (simp add: filter_dates_def dropna_def)


lemma detect_roles_rows:
  "detect_roles lower (df\<lparr>rows := rs\<rparr>) = detect_roles lower df"
  by (simp add: detect_roles_def cong: sum.case_cong)

lemma date_stage_without_outside:
  "filter_dates (start a) (end' a) d (dropna (Str d)
      (coerce_date to_dt (df\<lparr>rows := filter (\<lambda>r. \<not> outside to_dt a d r) (rows df)\<rparr>) d)) =
   filter_dates (start a) (end' a) d (dropna (Str d) (coerce_date to_dt df d))"
proof (rule frame.equality)
  have "filter (\<lambda>r. case to_dt (r (Str d)) of Some t \<Rightarrow> start a \<le> t \<and> t \<le> end' a | None \<Rightarrow> False)
          (filter (\<lambda>r. \<not> outside to_dt a d r) (rows df)) =
        filter (\<lambda>r. case to_dt (r (Str d)) of Some t \<Rightarrow> start a \<le> t \<and> t \<le> end' a | None \<Rightarrow> False)
          (rows df)"
    by (auto simp: outside_def intro!: filter_cong split: option.splits)
  then show "rows (filter_dates (start a) (end' a) d (dropna (Str d)
      (coerce_date to_dt (df\<lparr>rows := filter (\<lambda>r. \<not> outside to_dt a d r) (rows df)\<rparr>) d))) =
    rows (filter_dates (start a) (end' a) d (dropna (Str d) (coerce_date to_dt df d)))"
    by (simp only: rows_after_date_filter) simp
  show "columns (filter_dates (start a) (end' a) d (dropna (Str d)
      (coerce_date to_dt (df\<lparr>rows := filter (\<lambda>r. \<not> outside to_dt a d r) (rows df)\<rparr>) d))) =
    columns (filter_dates (start a) (end' a) d (dropna (Str d) (coerce_date to_dt df d)))"
    by (simp only: columns_after_date_filter) (simp add: coerce_date_def assign_def)
qed simp

lemma clean_dates_without_outside:
  "clean_dates to_dt a d (df\<lparr>rows := filter (\<lambda>r. \<not> outside to_dt a d r) (rows df)\<rparr>) =
   clean_dates to_dt a d df"
  by (simp only: clean_dates_def Let_def date_stage_without_outside)


text \<open>
  C7. Let \<open>d\<close> be the date column the run detects. The rows that pass lines 82 to 89 are
  exactly the rows of the table that are in the window, each with its date parsed: a
  row whose date parses to a timestamp before \<open>start\<close> or after \<open>end\<close> is not among
  them, and when \<open>start\<close> is not after \<open>end\<close>, a row whose date parses to \<open>start\<close> or
  to \<open>end\<close> is. Removing from the input the rows that are outside the window changes
  nothing the run writes and no exception it raises, and of what it prints only the
  count of raw rows.
\<close>

theorem date_window_is_inclusive:
  assumes "detect_roles lower df = Inr (Some d, cc, ac, qc)"
  shows "rows (filter_dates (start a) (end' a) d (dropna (Str d) (coerce_date to_dt df d))) =
      map (\<lambda>r. r(Str d := case to_dt (r (Str d)) of Some t \<Rightarrow> Stamp t | None \<Rightarrow> Null))
        (filter (in_window to_dt a d) (rows df))
    \<and> (\<forall>r\<in>set (rows df). outside to_dt a d r \<longrightarrow> \<not> in_window to_dt a d r)
    \<and> (\<forall>r\<in>set (rows df). start a \<le> end' a \<and>
          (to_dt (r (Str d)) = Some (start a) \<or> to_dt (r (Str d)) = Some (end' a))
          \<longrightarrow> in_window to_dt a d r)
    \<and> (let out = main lower to_dt parse a df;
            out' = main lower to_dt parse a
                     (df\<lparr>rows := filter (\<lambda>r. \<not> outside to_dt a d r) (rows df)\<rparr>)
        in agg_csv out' = agg_csv out \<and> pivot_csv out' = pivot_csv out
         \<and> pct_csv out' = pct_csv out \<and> trends_png out' = trends_png out
         \<and> report_md out' = report_md out \<and> raised out' = raised out
         \<and> tl (tl (printed out')) = tl (tl (printed out)))"
proof (intro conjI)
  show "rows (filter_dates (start a) (end' a) d (dropna (Str d) (coerce_date to_dt df d))) =
      map (\<lambda>r. r(Str d := case to_dt (r (Str d)) of Some t \<Rightarrow> Stamp t | None \<Rightarrow> Null))
        (filter (in_window to_dt a d) (rows df))"
    by (simp only: rows_after_date_filter in_window_def [abs_def])
  show "\<forall>r\<in>set (rows df). outside to_dt a d r \<longrightarrow> \<not> in_window to_dt a d r"
    by (auto simp: outside_def in_window_def split: option.splits)
  show "\<forall>r\<in>set (rows df). start a \<le> end' a \<and>
          (to_dt (r (Str d)) = Some (start a) \<or> to_dt (r (Str d)) = Some (end' a))
          \<longrightarrow> in_window to_dt a d r"
    by (auto simp: in_window_def)
  let ?df' = "df\<lparr>rows := filter (\<lambda>r. \<not> outside to_dt a d r) (rows df)\<rparr>"
  have det': "detect_roles lower ?df' = Inr (Some d, cc, ac, qc)"
    using assms by (simp only: detect_roles_rows)
  have cd: "clean_dates to_dt a d ?df' = clean_dates to_dt a d df"
    by (rule clean_dates_without_outside)
  show "let out = main lower to_dt parse a df; out' = main lower to_dt parse a ?df'
        in agg_csv out' = agg_csv out \<and> pivot_csv out' = pivot_csv out
         \<and> pct_csv out' = pct_csv out \<and> trends_png out' = trends_png out
         \<and> report_md out' = report_md out \<and> raised out' = raised out
         \<and> tl (tl (printed out')) = tl (tl (printed out))"
    by (simp add: main_def assms det' cd Let_def nothing_def split: prod.splits option.splits)
qed



lemma window_table_roles:
  "detect_roles lower_ascii window_table = Inr (Some ''date'', Some ''category'', Some ''amount'', None)"
  by (simp add: detect_roles_def detect_column_def window_table_def lower_ascii_def
      COMMON_DATE_COLS_def COMMON_CATEGORY_COLS_def COMMON_AMOUNT_COLS_def COMMON_QTY_COLS_def)

theorem date_window_is_inclusive_witness:
  "map (\<lambda>r. r (Str ''date''))
     (rows (filter_dates (start default_args) (end' default_args) ''date''
        (dropna (Str ''date'') (coerce_date stamps_only window_table ''date'')))) =
     [Stamp (2025, 10, 1, 0), Stamp (2026, 1, 31, 0)]
   \<and> agg_csv (main lower_ascii stamps_only no_text default_args
        (window_table\<lparr>rows :=
           filter (\<lambda>r. \<not> outside stamps_only default_args ''date'' r) (rows window_table)\<rparr>)) =
     agg_csv (main lower_ascii stamps_only no_text default_args window_table)"
proof -
  note t = date_window_is_inclusive [OF window_table_roles, of default_args stamps_only no_text]
  have r: "rows (filter_dates (start default_args) (end' default_args) ''date''
        (dropna (Str ''date'') (coerce_date stamps_only window_table ''date''))) =
      map (\<lambda>r. r(Str ''date'' := case stamps_only (r (Str ''date'')) of
                                   Some t \<Rightarrow> Stamp t | None \<Rightarrow> Null))
        (filter (in_window stamps_only default_args ''date'') (rows window_table))"
    using t by (rule conjunct1)
  have m: "agg_csv (main lower_ascii stamps_only no_text default_args
        (window_table\<lparr>rows :=
           filter (\<lambda>r. \<not> outside stamps_only default_args ''date'' r) (rows window_table)\<rparr>)) =
     agg_csv (main lower_ascii stamps_only no_text default_args window_table)"
    using t by (simp only: Let_def)
  show ?thesis
    unfolding r
    by (rule conjI [OF _ m])
      (simp add: in_window_def window_table_def mk_row_def stamps_only_def default_args_def)
qed

section \<open>The quantity column as the amount (C10)\<close>

lemma coerce_numeric_Null: "coerce_numeric parse c \<noteq> Null \<longleftrightarrow> to_numeric parse c \<noteq> None"
  by (simp add: coerce_numeric_def split: option.splits)

lemma coerce_numeric_idem:
  "fillna (Num 0) (coerce_numeric parse (coerce_numeric parse c)) = coerce_numeric parse c"
  if "to_numeric parse c \<noteq> None"
  using that by (auto simp add: coerce_numeric_def to_numeric_def fillna_def split: option.splits)

lemma length_filter_complement:
  "length xs - length (filter P xs) = length (filter (\<lambda>x. \<not> P x) xs)"
  using sum_length_filter_compl [of P xs] by simp

text \<open>
  C10. When no amount column is detected and the table has the detected quantity column,
  lines 104 to 120 print the notice and the count of the rows whose quantity is not
  numeric, and leave exactly the other rows, each with its quantity as a number: a row
  whose quantity fails the coercion is dropped, not kept with a zero.
\<close>

theorem quantity_as_amount_drops_rows:
  assumes "has_qty (Some q) df"
  shows "clean_amounts parse None (Some q) df =
     ([NoAmountColumn,
       MissingAmountRemoved (length (filter (\<lambda>r. to_numeric parse (r (Str q)) = None) (rows df)))],
      Some (q, \<lparr>columns = columns df,
                rows = map (\<lambda>r. r(Str q := coerce_numeric parse (r (Str q))))
                         (filter (\<lambda>r. to_numeric parse (r (Str q)) \<noteq> None) (rows df))\<rparr>))"
proof -
  let ?df1 = "assign (Str q) (\<lambda>r. coerce_numeric parse (r (Str q))) df"
  let ?df2 = "dropna (Str q) ?df1"
  let ?keep = "filter (\<lambda>r. to_numeric parse (r (Str q)) \<noteq> None) (rows df)"
  from assms have q: "q \<noteq> []" "Str q \<in> set (columns df)" by (simp_all add: has_qty_def)
  have c1: "columns ?df1 = columns df" using q by (simp add: assign_def)
  have r1: "length (rows ?df1) = length (rows df)" by (simp add: assign_def)
  have r2: "rows ?df2 = map (\<lambda>r. r(Str q := coerce_numeric parse (r (Str q)))) ?keep"
    by (simp add: dropna_def assign_def filter_map o_def coerce_numeric_Null)
  have c2: "columns ?df2 = columns df" using c1 by (simp add: dropna_def)
  have h2: "has_qty (Some q) ?df2" using q c2 by (simp add: has_qty_def)
  have n: "length (rows ?df1) - length (rows ?df2) =
      length (filter (\<lambda>r. to_numeric parse (r (Str q)) = None) (rows df))"
    using length_filter_complement [of "rows df" "\<lambda>r. to_numeric parse (r (Str q)) \<noteq> None"]
    by (simp add: r1 r2)
  have r3: "rows (assign (Str q) (\<lambda>r. fillna (Num 0) (coerce_numeric parse (r (Str q)))) ?df2) =
      rows ?df2"
  proof -
    have "rows (assign (Str q) (\<lambda>r. fillna (Num 0) (coerce_numeric parse (r (Str q)))) ?df2) =
        map (\<lambda>r. r(Str q := fillna (Num 0) (coerce_numeric parse (r (Str q))))) (rows ?df2)"
      by (simp add: assign_def)
    also have "\<dots> = map (\<lambda>r. r(Str q := coerce_numeric parse (r (Str q)))) ?keep"
      unfolding r2 by (simp add: o_def coerce_numeric_idem)
    finally show ?thesis by (simp only: r2)
  qed
  have c3: "columns (assign (Str q) (\<lambda>r. fillna (Num 0) (coerce_numeric parse (r (Str q)))) ?df2) =
      columns df"
    using q c2 by (simp add: assign_def)
  have e: "assign (Str q) (\<lambda>r. fillna (Num 0) (coerce_numeric parse (r (Str q)))) ?df2 =
      \<lparr>columns = columns df, rows = map (\<lambda>r. r(Str q := coerce_numeric parse (r (Str q)))) ?keep\<rparr>"
    by (rule frame.equality) (simp_all add: r3 c3 r2)
  show ?thesis
    by (simp add: clean_amounts_def assms h2 Let_def n e)
qed

theorem quantity_as_amount_drops_rows_witness:
  "clean_amounts no_text None (Some ''qty'') qty_only_table =
     ([NoAmountColumn, MissingAmountRemoved 2],
      Some (''qty'', \<lparr>columns = [Str ''date'', Str ''category'', Str ''qty''],
                rows = [mk_row [(''date'', Stamp (2025, 10, 5, 0)), (''category'', Txt ''A''),
                                (''qty'', Num 3)]]\<rparr>))"
proof -
  have h: "has_qty (Some ''qty'') qty_only_table" by (simp add: has_qty_def qty_only_table_def)
  have u: "(mk_row [(''date'', Stamp (2025, 10, 5, 0)), (''category'', Txt ''A''), (''qty'', Num 3)])
      (Str ''qty'' := Num 3) =
      mk_row [(''date'', Stamp (2025, 10, 5, 0)), (''category'', Txt ''A''), (''qty'', Num 3)]"
    by (rule ext) (simp add: mk_row_def)
  show ?thesis
    unfolding quantity_as_amount_drops_rows [OF h, of no_text]
    by (simp add: qty_only_table_def to_numeric_def coerce_numeric_def no_text_def u)
      (auto simp add: mk_row_def no_text_def fun_eq_iff split: label.splits)
qed

section \<open>The chart's categories (C8)\<close>
















section \<open>The report step in a run (C5)\<close>

lemma position_None: "position x ys = None \<longleftrightarrow> x \<notin> set ys"
  by (induction ys) auto

lemma getitem_missing:
  assumes "k \<notin> set (cols pv)"
  shows "getitem pv k = Inl (KeyError k)"
proof -
  from assms have "position k (cols pv) = None" by (simp add: position_None)
  then show ?thesis by (simp add: getitem_def)
qed

lemma at_least_two:
  assumes "2 \<le> length (xs :: 'a list)"
  obtains x y ys where "xs = x # y # ys"
  using assms by (cases xs rule: list.exhaust; cases "tl xs") auto

lemma write_report_few_months:
  assumes "length (index pv) < 2"
  shows "write_report a pv = Inr None"
  using assms
  by (cases "index pv" rule: list.exhaust; cases "tl (index pv)") (auto simp add: write_report_def)

lemma one_month_table_reshape:
  "reshape (groupby_agg ''category'' ''amount'' None (add_month ''date'' one_month_table)) =
     Inr (\<lparr>index = [Txt ''2025-10''], cols = [Txt ''A'', Txt ''B''], vals = [[100, 200]]\<rparr>,
          \<lparr>index = [Txt ''2025-10''], cols = [Txt ''A'', Txt ''B''], vals = [[NaN, NaN]]\<rparr>)"
  by (simp add: groupby_agg_def keyed_rows_def group_rows_def group_key_def agg_of_group_def
      add_month_def assign_def one_month_table_def mk_row_def month_of_def month_label_def
      digit_def has_qty_def col_sum_def col_count_def num_def less_eq_cell_def less_cell_def
      reshape_def pivot_def fillna0_def sort_index_def pct_change_def
      replace_infs_def replace_inf_def fsub_def fdiv_def)

text \<open>
  C5. Take any cleaned table on which lines 123 to 144 build the pivot. With fewer than
  two months in the pivot, the run writes the three tables and the chart, prints the
  notice that the months are too few, writes no report and raises nothing. With two
  months or more, the last of which is not also the label of a category, the run writes
  the three tables and the chart and then raises KeyError for the last month label at
  line 181: no report is written, and neither the message for the report nor the final
  message is printed.
\<close>

theorem report_step_in_a_run:
  assumes "reshape (groupby_agg c am q (add_month d df)) = Inr (pv, pct)"
  shows "(length (index pv) < 2 \<longrightarrow>
       analyse a d c am q df =
         \<lparr>printed = [SavedTables, SavedChart, TooFewMonths, Finished],
          agg_csv = Some (groupby_agg c am q (add_month d df)),
          pivot_csv = Some pv, pct_csv = Some pct,
          trends_png = Some (plot_trends (top_n a) (groupby_agg c am q (add_month d df)) pv),
          report_md = None, raised = None\<rparr>)
     \<and> (2 \<le> length (index pv) \<and> last (index pv) \<notin> set (cols pv) \<longrightarrow>
       analyse a d c am q df =
         \<lparr>printed = [SavedTables, SavedChart],
          agg_csv = Some (groupby_agg c am q (add_month d df)),
          pivot_csv = Some pv, pct_csv = Some pct,
          trends_png = Some (plot_trends (top_n a) (groupby_agg c am q (add_month d df)) pv),
          report_md = None, raised = Some (KeyError (last (index pv)))\<rparr>)"
proof (intro conjI impI)
  assume "length (index pv) < 2"
  then show "analyse a d c am q df =
         \<lparr>printed = [SavedTables, SavedChart, TooFewMonths, Finished],
          agg_csv = Some (groupby_agg c am q (add_month d df)),
          pivot_csv = Some pv, pct_csv = Some pct,
          trends_png = Some (plot_trends (top_n a) (groupby_agg c am q (add_month d df)) pv),
          report_md = None, raised = None\<rparr>"
    by (simp add: analyse_def Let_def assms write_report_few_months nothing_def)
next
  assume h: "2 \<le> length (index pv) \<and> last (index pv) \<notin> set (cols pv)"
  then obtain m0 m1 ms where i: "index pv = m0 # m1 # ms" by (blast elim: at_least_two)
  have "getitem pv (last (index pv)) = Inl (KeyError (last (index pv)))"
    using h by (simp add: getitem_missing)
  then have "write_report a pv = Inl (KeyError (last (index pv)))"
    by (simp add: write_report_def i)
  then show "analyse a d c am q df =
         \<lparr>printed = [SavedTables, SavedChart],
          agg_csv = Some (groupby_agg c am q (add_month d df)),
          pivot_csv = Some pv, pct_csv = Some pct,
          trends_png = Some (plot_trends (top_n a) (groupby_agg c am q (add_month d df)) pv),
          report_md = None, raised = Some (KeyError (last (index pv)))\<rparr>"
    by (simp add: analyse_def Let_def assms nothing_def)
qed

theorem report_step_in_a_run_witness:
  "raised (analyse default_args ''date'' ''category'' ''amount'' (Some ''qty'') sample_clean) =
     Some (KeyError (Txt ''2025-11''))
   \<and> report_md (analyse default_args ''date'' ''category'' ''amount'' (Some ''qty'') sample_clean) =
     None
   \<and> printed (analyse default_args ''date'' ''category'' ''amount'' (Some ''qty'') sample_clean) =
     [SavedTables, SavedChart]
   \<and> raised (analyse default_args ''date'' ''category'' ''amount'' None one_month_table) = None
   \<and> report_md (analyse default_args ''date'' ''category'' ''amount'' None one_month_table) = None
   \<and> printed (analyse default_args ''date'' ''category'' ''amount'' None one_month_table) =
     [SavedTables, SavedChart, TooFewMonths, Finished]"
  using report_step_in_a_run [OF sample_clean_reshape, of default_args]
    report_step_in_a_run [OF one_month_table_reshape, of default_args]
  by simp

text \<open>
  The whole run on the table of Scenario A, whose pivot has the two months 2025-10 and
  2025-11: it prints its messages up to the one for the chart, writes the aggregate, the
  pivot (300 and 50 for category \<open>A\<close>), the change matrix (undefined, then \<open>-5/6\<close>) and the
  chart with one series, and then line 181 raises KeyError for the label \<open>2025-11\<close>.
\<close>

text \<open>The definitions a concrete run unfolds.\<close>

lemmas run_defs =
  main_def detect_roles_def detect_column_def lower_ascii_def
  COMMON_DATE_COLS_def COMMON_CATEGORY_COLS_def COMMON_AMOUNT_COLS_def COMMON_QTY_COLS_def
  clean_dates_def coerce_date_def dropna_def filter_dates_def in_range_def drop_duplicates_def
  row_eq_def clean_category_def clean_amounts_def fillna_def coerce_numeric_def to_numeric_def
  has_qty_def analyse_def nothing_def reshape_def pivot_def fillna0_def sort_index_def
  pct_change_def replace_infs_def replace_inf_def fdiv_def fsub_def
  plot_trends_def top_cats_def total_by_cat_def sort_values_desc_def head_def tail_def
  getitem_def write_report_def get_def
  groupby_agg_def keyed_rows_def group_rows_def group_key_def agg_of_group_def
  add_month_def assign_def mk_row_def month_of_def month_label_def digit_def
  col_sum_def col_count_def num_def less_eq_cell_def less_cell_def
  stamps_only_def no_text_def default_args_def unknown_def detected_col_def

lemma scenario_A_run:
  "main lower_ascii stamps_only no_text default_args scenario_A =
     \<lparr>printed =
        [Reading, RawRows 3,
         Detected (COMMON_DATE_COLS ! 0) (Some (COMMON_CATEGORY_COLS ! 0))
           (Some (COMMON_AMOUNT_COLS ! 0)) None,
         RowsInRange 3, DuplicatesRemoved 0, MissingAmountRemoved 0, SavedTables, SavedChart],
      agg_csv = Some
        [\<lparr>month = Txt ''2025-10'', category = Txt ''A'', sales_amount = 300, qty = 2, orders = 2\<rparr>,
         \<lparr>month = Txt ''2025-11'', category = Txt ''A'', sales_amount = 50, qty = 1, orders = 1\<rparr>],
      pivot_csv = Some
        \<lparr>index = [Txt ''2025-10'', Txt ''2025-11''], cols = [Txt ''A''], vals = [[300], [50]]\<rparr>,
      pct_csv = Some
        \<lparr>index = [Txt ''2025-10'', Txt ''2025-11''], cols = [Txt ''A''],
          vals = [[NaN], [Fin (- 5 / 6)]]\<rparr>,
      trends_png = Some
        \<lparr>shown = 1, series = [(Txt ''A'', [(Txt ''2025-10'', 300), (Txt ''2025-11'', 50)])]\<rparr>,
      report_md = None,
      raised = Some (KeyError (Txt ''2025-11''))\<rparr>"
  by (simp add: run_defs scenario_A_def)

section \<open>The report's changes (C6)\<close>

text \<open>
  C6. For every pivot with at least two months whose last month label is not also the
  label of a category, the report step computes no change and writes no entry: the
  selection \<open>pivot[last]\<close> of line 181 raises KeyError for the last month label.
\<close>

theorem report_step_raises_key_error:
  assumes "2 \<le> length (index pv)" and "last (index pv) \<notin> set (cols pv)"
  shows "write_report a pv = Inl (KeyError (last (index pv)))"
proof -
  from assms(1) obtain m0 m1 ms where i: "index pv = m0 # m1 # ms" by (rule at_least_two)
  have "getitem pv (last (index pv)) = Inl (KeyError (last (index pv)))"
    using assms(2) by (rule getitem_missing)
  then show ?thesis by (simp add: write_report_def i)
qed

theorem report_step_raises_key_error_witness:
  "write_report default_args
     \<lparr>index = [Txt ''2025-10'', Txt ''2025-11''], cols = [Txt ''A''], vals = [[300], [50]]\<rparr> =
   Inl (KeyError (Txt ''2025-11''))"
  using report_step_raises_key_error [of
      "\<lparr>index = [Txt ''2025-10'', Txt ''2025-11''], cols = [Txt ''A''], vals = [[300], [50]]\<rparr>"
      default_args]
  by simp


end
